theory Spec2Isabelle
  imports Complex_Main
begin

section \<open>MindexDB: a Redis-like wrapper for IndexedDB\<close>

text \<open>
  The development embeds the class \<^verbatim>\<open>MindexDB\<close> of \<^verbatim>\<open>src/mindexdb.js\<close>: four object
  stores (\<^verbatim>\<open>keyValue\<close>, \<^verbatim>\<open>hash\<close>, \<^verbatim>\<open>list\<close>, \<^verbatim>\<open>expiry\<close>), the operations on
  them, and the Web Worker that posts a delete event when a key's timer ends.

  Every method is modelled on a connected database whose backend requests succeed, one
  operation at a time: an operation takes the state and returns what its promise resolves
  with, together with the state after its transaction has completed. The clock
  (\<^verbatim>\<open>Date.now()\<close>) is an argument, in milliseconds.

  \<^verbatim>\<open>src/unnamed/part_000\<close> is a second copy of the class, without \<^verbatim>\<open>ttl\<close>, in
  which every hash and list method is an \<^verbatim>\<open>async\<close> callback given to
  \<^verbatim>\<open>_performTransaction\<close>; \<^verbatim>\<open>set\<close>, \<^verbatim>\<open>get\<close>, \<^verbatim>\<open>del\<close>, \<^verbatim>\<open>expire\<close> and the
  worker are the same in both. The definitions below follow \<^verbatim>\<open>src/mindexdb.js\<close>, and
  the line numbers are its lines.
\<close>

subsection \<open>Values\<close>

text \<open>
  What a store can hold: a value that the structured clone algorithm copies. Numbers
  are payload only (the engine never computes with a stored number), so integers stand
  for them. An object is the list of its own properties in insertion order.
\<close>

datatype jsval =
    JUndefined
  | JNull
  | JBool bool
  | JNum int
  | JStr string
  | JArray "jsval list"
  | JObject "(string \<times> jsval) list"

text \<open>
  What a property read can give: a cloned value, or a member that a plain object
  inherits from \<^verbatim>\<open>Object.prototype\<close> (a built-in function, or the prototype itself
  for \<^verbatim>\<open>__proto__\<close>), named by its property name.
\<close>

datatype jsany =
    Data jsval
  | ObjectPrototype string

type_synonym jsobject = "(string \<times> jsval) list"

text \<open>
  The property names of \<^verbatim>\<open>Object.prototype\<close>, which every object read back from a
  store (and the literal \<^verbatim>\<open>{}\<close>) inherits.
\<close>

definition object_prototype_names :: "string list" where
  "object_prototype_names =
     [''constructor'', ''__defineGetter__'', ''__defineSetter__'', ''hasOwnProperty'',
      ''__lookupGetter__'', ''__lookupSetter__'', ''isPrototypeOf'',
      ''propertyIsEnumerable'', ''toString'', ''valueOf'', ''__proto__'',
      ''toLocaleString'']"

text \<open>\<^verbatim>\<open>key in obj\<close>: an own property, or one found on the prototype chain.\<close>

definition has_property :: "jsobject \<Rightarrow> string \<Rightarrow> bool" where
  "has_property obj key =
     (if map_of obj key = None then key \<in> set object_prototype_names else True)"

text \<open>\<^verbatim>\<open>obj[key]\<close>: the own property first, then the prototype chain.\<close>

definition get_property :: "jsobject \<Rightarrow> string \<Rightarrow> jsany" where
  "get_property obj key =
     (case map_of obj key of
        Some v \<Rightarrow> Data v
      | None \<Rightarrow>
          if key \<in> set object_prototype_names then ObjectPrototype key
          else Data JUndefined)"

text \<open>
  \<^verbatim>\<open>obj[key] = value\<close> followed by the structured clone that \<^verbatim>\<open>store.put\<close> makes.
  An existing own property keeps its place, a new one goes last.
  \<^verbatim>\<open>__proto__\<close> is an accessor of \<^verbatim>\<open>Object.prototype\<close>: assigning to it runs the
  setter and creates no own property, so the clone does not have it.
\<close>

fun put_own :: "jsobject \<Rightarrow> string \<Rightarrow> jsval \<Rightarrow> jsobject" where
  "put_own [] key v = [(key, v)]"
| "put_own ((k, w) # ps) key v =
     (if k = key then (k, v) # ps else (k, w) # put_own ps key v)"

definition set_property :: "jsobject \<Rightarrow> string \<Rightarrow> jsval \<Rightarrow> jsobject" where
  "set_property obj key v = (if key = ''__proto__'' then obj else put_own obj key v)"

text \<open>
  \<^verbatim>\<open>Array.prototype.slice(start, stop)\<close> on integer arguments: a negative index counts
  from the end, and both indices are clamped to \<open>0 .. length\<close>.
\<close>

definition slice :: "'a list \<Rightarrow> int \<Rightarrow> int \<Rightarrow> 'a list" where
  "slice xs start stop =
     (let len = int (length xs);
          k = (if start < 0 then max (len + start) 0 else min start len);
          final = (if stop < 0 then max (len + stop) 0 else min stop len)
      in take (nat (final - k)) (drop (nat k) xs))"

subsection \<open>The database\<close>

datatype store_name = Store_keyValue | Store_hash | Store_list | Store_expiry

text \<open>A write request made on a store: \<^verbatim>\<open>store.put\<close> or \<^verbatim>\<open>store.delete\<close>.\<close>

datatype write_request = Put store_name string | Delete store_name string

text \<open>
  The hash store is written by \<^verbatim>\<open>hset\<close> only, which puts an object, and the list
  store by \<^verbatim>\<open>lpush\<close>, \<^verbatim>\<open>rpush\<close>, \<^verbatim>\<open>lpop\<close> and \<^verbatim>\<open>rpop\<close> only, which put
  arrays: a record of the hash store is an object and a record of the list store is an
  array. The expiry store has the key path \<^verbatim>\<open>key\<close>: its record \<^verbatim>\<open>{key, expireAt}\<close>
  is the entry \<open>key \<mapsto> expireAt\<close>. \<open>timers\<close> are the worker's pending timeouts, each
  the key and the instant it was set for; \<open>writes\<close> is the log of the write requests
  made so far.
\<close>

record dbstate =
  keyValue_store :: "string \<rightharpoonup> jsval"
  hash_store :: "string \<rightharpoonup> jsobject"
  list_store :: "string \<rightharpoonup> jsval list"
  expiry_store :: "string \<rightharpoonup> int"
  timers :: "(string \<times> int) list"
  writes :: "write_request list"

definition empty_db :: dbstate where
  "empty_db =
     \<lparr>keyValue_store = Map.empty, hash_store = Map.empty, list_store = Map.empty,
      expiry_store = Map.empty, timers = [], writes = []\<rparr>"

subsection \<open>Transactions\<close>

text \<open>
  What the callback given to \<^verbatim>\<open>_performTransaction\<close> returns: an \<^verbatim>\<open>IDBRequest\<close>
  (with the result it has once the transaction has completed), a promise (the callback
  was an \<^verbatim>\<open>async\<close> function; the value is what the promise resolves with), or nothing.
\<close>

datatype returned = Request jsval | Promise jsval | Nothing

text \<open>
  \<^verbatim>\<open>_performTransaction\<close> (lines 393-409) calls the callback, keeps what it returns
  as \<^verbatim>\<open>request\<close>, and when the transaction has completed resolves with
  \<^verbatim>\<open>request ? request.result : undefined\<close>.
  A promise is truthy and has no property \<^verbatim>\<open>result\<close>.
\<close>

fun performTransaction :: "returned \<Rightarrow> jsval" where
  "performTransaction (Request result) = result"
| "performTransaction (Promise v) = JUndefined"
| "performTransaction Nothing = JUndefined"

subsection \<open>Key-value operations\<close>

text \<open>
  \<^verbatim>\<open>set\<close> (lines 88-92) and \<^verbatim>\<open>get\<close> (lines 99-103). The callback of \<^verbatim>\<open>set\<close>
  has a block body and returns nothing; the callback of \<^verbatim>\<open>get\<close> returns the request
  of \<^verbatim>\<open>store.get(key)\<close>, whose result is \<^verbatim>\<open>undefined\<close> for a key without record.
\<close>

definition set_op :: "dbstate \<Rightarrow> string \<Rightarrow> jsval \<Rightarrow> jsval \<times> dbstate" where
  "set_op s key v =
     (performTransaction Nothing,
      s\<lparr>keyValue_store := (keyValue_store s)(key \<mapsto> v),
        writes := writes s @ [Put Store_keyValue key]\<rparr>)"

definition get :: "dbstate \<Rightarrow> string \<Rightarrow> jsval" where
  "get s key =
     performTransaction
       (Request (case keyValue_store s key of None \<Rightarrow> JUndefined | Some v \<Rightarrow> v))"

subsection \<open>Hash operations\<close>

text \<open>
  \<^verbatim>\<open>hset\<close> (lines 113-127) reads the record, takes \<^verbatim>\<open>{}\<close> when there is none,
  assigns the field and puts the object back; its callback is \<^verbatim>\<open>async\<close> and the
  promise of \<^verbatim>\<open>hset\<close> resolves with \<^verbatim>\<open>undefined\<close>. \<^verbatim>\<open>hget\<close> (lines 135-155)
  resolves with \<^verbatim>\<open>hashObj[key]\<close> when
  \<^verbatim>\<open>hashObj && typeof hashObj === 'object' && key in hashObj\<close>, else with \<^verbatim>\<open>null\<close>.
\<close>

definition hset :: "dbstate \<Rightarrow> string \<Rightarrow> string \<Rightarrow> jsval \<Rightarrow> jsval \<times> dbstate" where
  "hset s hash key v =
     (let hashObj = (case hash_store s hash of None \<Rightarrow> [] | Some obj \<Rightarrow> obj);
          hashObj' = set_property hashObj key v
      in (performTransaction (Promise JUndefined),
          s\<lparr>hash_store := (hash_store s)(hash \<mapsto> hashObj'),
            writes := writes s @ [Put Store_hash hash]\<rparr>))"

definition hget :: "dbstate \<Rightarrow> string \<Rightarrow> string \<Rightarrow> jsany" where
  "hget s hash key =
     (case hash_store s hash of
        None \<Rightarrow> Data JNull
      | Some hashObj \<Rightarrow>
          if has_property hashObj key then get_property hashObj key else Data JNull)"

subsection \<open>List operations\<close>

text \<open>
  \<^verbatim>\<open>lpush\<close> (lines 165-187), \<^verbatim>\<open>rpush\<close> (lines 195-217), \<^verbatim>\<open>lpop\<close>
  (lines 223-247), \<^verbatim>\<open>rpop\<close> (lines 255-279) and \<^verbatim>\<open>lrange\<close> (lines 288-308).
  \<^verbatim>\<open>Array.isArray(list)\<close> fails for a key without record, for which the result of
  \<^verbatim>\<open>store.get\<close> is \<^verbatim>\<open>undefined\<close>. \<^verbatim>\<open>unshift(...values)\<close> puts the values in
  front as a block, \<^verbatim>\<open>push(...values)\<close> behind; \<^verbatim>\<open>shift()\<close> takes the first
  element away and \<^verbatim>\<open>pop()\<close> the last.
\<close>

definition lpush :: "dbstate \<Rightarrow> string \<Rightarrow> jsval list \<Rightarrow> nat \<times> dbstate" where
  "lpush s key vals =
     (let list = (case list_store s key of None \<Rightarrow> [] | Some xs \<Rightarrow> xs);
          list' = vals @ list
      in (length list',
          s\<lparr>list_store := (list_store s)(key \<mapsto> list'),
            writes := writes s @ [Put Store_list key]\<rparr>))"

definition rpush :: "dbstate \<Rightarrow> string \<Rightarrow> jsval list \<Rightarrow> nat \<times> dbstate" where
  "rpush s key vals =
     (let list = (case list_store s key of None \<Rightarrow> [] | Some xs \<Rightarrow> xs);
          list' = list @ vals
      in (length list',
          s\<lparr>list_store := (list_store s)(key \<mapsto> list'),
            writes := writes s @ [Put Store_list key]\<rparr>))"

definition lpop :: "dbstate \<Rightarrow> string \<Rightarrow> jsval \<times> dbstate" where
  "lpop s key =
     (case list_store s key of
        None \<Rightarrow> (JNull, s)
      | Some [] \<Rightarrow> (JNull, s)
      | Some (item # rest) \<Rightarrow>
          (item,
           s\<lparr>list_store := (list_store s)(key \<mapsto> rest),
             writes := writes s @ [Put Store_list key]\<rparr>))"

definition rpop :: "dbstate \<Rightarrow> string \<Rightarrow> jsval \<times> dbstate" where
  "rpop s key =
     (case list_store s key of
        None \<Rightarrow> (JNull, s)
      | Some list \<Rightarrow>
          if length list = 0 then (JNull, s)
          else
            (last list,
             s\<lparr>list_store := (list_store s)(key \<mapsto> butlast list),
               writes := writes s @ [Put Store_list key]\<rparr>))"

definition lrange :: "dbstate \<Rightarrow> string \<Rightarrow> int \<Rightarrow> int \<Rightarrow> jsval list" where
  "lrange s key start stop =
     (case list_store s key of
        None \<Rightarrow> []
      | Some list \<Rightarrow>
          let adjustedStop =
                (if stop < 0 then int (length list) + stop + 1 else stop + 1)
          in slice list start adjustedStop)"

subsection \<open>Deletion and expiry\<close>

text \<open>
  \<^verbatim>\<open>del\<close> (lines 314-318) runs three transactions in a row, one delete on each value
  store. \<^verbatim>\<open>_setExpiry\<close> (lines 369-373) and \<^verbatim>\<open>_removeExpiry\<close> (lines 379-383)
  write the expiry store; \<^verbatim>\<open>expire\<close> (lines 325-329) stores the record and posts
  \<^verbatim>\<open>{key, expireAt}\<close> to the worker.
\<close>

definition del :: "dbstate \<Rightarrow> string \<Rightarrow> dbstate" where
  "del s key =
     (let s1 = s\<lparr>keyValue_store := (keyValue_store s)(key := None),
                 writes := writes s @ [Delete Store_keyValue key]\<rparr>;
          s2 = s1\<lparr>hash_store := (hash_store s1)(key := None),
                  writes := writes s1 @ [Delete Store_hash key]\<rparr>;
          s3 = s2\<lparr>list_store := (list_store s2)(key := None),
                  writes := writes s2 @ [Delete Store_list key]\<rparr>
      in s3)"

definition setExpiry :: "dbstate \<Rightarrow> string \<Rightarrow> int \<Rightarrow> dbstate" where
  "setExpiry s key expireAt =
     s\<lparr>expiry_store := (expiry_store s)(key \<mapsto> expireAt),
       writes := writes s @ [Put Store_expiry key]\<rparr>"

definition removeExpiry :: "dbstate \<Rightarrow> string \<Rightarrow> dbstate" where
  "removeExpiry s key =
     s\<lparr>expiry_store := (expiry_store s)(key := None),
       writes := writes s @ [Delete Store_expiry key]\<rparr>"

text \<open>
  The worker's \<^verbatim>\<open>self.onmessage\<close> (lines 61-68): it starts one timeout for the
  message \<^verbatim>\<open>{key, expireAt}\<close>, which ends no earlier than \<^verbatim>\<open>expireAt\<close>.
\<close>

definition worker_postMessage :: "dbstate \<Rightarrow> string \<Rightarrow> int \<Rightarrow> dbstate" where
  "worker_postMessage s key expireAt = s\<lparr>timers := timers s @ [(key, expireAt)]\<rparr>"

definition expire :: "dbstate \<Rightarrow> string \<Rightarrow> int \<Rightarrow> int \<Rightarrow> dbstate" where
  "expire s key seconds now =
     (let expireAt = now + seconds * 1000;
          s1 = setExpiry s key expireAt
      in worker_postMessage s1 key expireAt)"

text \<open>
  The engine's handler of a worker message \<^verbatim>\<open>{key, action}\<close>
  (\<^verbatim>\<open>this.worker.onmessage\<close> in \<^verbatim>\<open>_initializeWorker\<close>, lines 72-78): it awaits
  \<^verbatim>\<open>del\<close>, then \<^verbatim>\<open>_removeExpiry\<close>.
\<close>

definition worker_onmessage :: "dbstate \<Rightarrow> string \<Rightarrow> string \<Rightarrow> dbstate" where
  "worker_onmessage s key action =
     (if action = ''delete'' then removeExpiry (del s key) key else s)"

text \<open>
  A timeout of the worker ends: the \<open>i\<close>-th pending timer, set for an instant that has
  been reached, leaves the worker and its message \<^verbatim>\<open>{key, action: 'delete'}\<close> is
  handled by the engine.
\<close>

definition timer_fires :: "dbstate \<Rightarrow> nat \<Rightarrow> int \<Rightarrow> dbstate" where
  "timer_fires s i now =
     (if i < length (timers s) \<and> snd (timers s ! i) \<le> now
      then worker_onmessage
             (s\<lparr>timers := take i (timers s) @ drop (Suc i) (timers s)\<rparr>)
             (fst (timers s ! i)) ''delete''
      else s)"

subsection \<open>Time to live\<close>

text \<open>
  \<^verbatim>\<open>_checkKeyExists\<close> (lines 356-363) asks the three value stores in turn for
  \<^verbatim>\<open>store.count(key)\<close>, each in a transaction of its own, and returns at the first
  count above zero. \<open>count_key\<close> is that count: the number of records with the key.
\<close>

definition count_key :: "dbstate \<Rightarrow> store_name \<Rightarrow> string \<Rightarrow> int" where
  "count_key s storeName key =
     (case storeName of
        Store_keyValue \<Rightarrow> (case keyValue_store s key of None \<Rightarrow> 0 | Some _ \<Rightarrow> 1)
      | Store_hash \<Rightarrow> (case hash_store s key of None \<Rightarrow> 0 | Some _ \<Rightarrow> 1)
      | Store_list \<Rightarrow> (case list_store s key of None \<Rightarrow> 0 | Some _ \<Rightarrow> 1)
      | Store_expiry \<Rightarrow> (case expiry_store s key of None \<Rightarrow> 0 | Some _ \<Rightarrow> 1))"

fun checkKeyExists_in :: "dbstate \<Rightarrow> store_name list \<Rightarrow> string \<Rightarrow> bool" where
  "checkKeyExists_in s [] key = False"
| "checkKeyExists_in s (storeName # stores) key =
     (let exists = count_key s storeName key
      in if exists > 0 then True else checkKeyExists_in s stores key)"

definition checkKeyExists :: "dbstate \<Rightarrow> string \<Rightarrow> bool" where
  "checkKeyExists s key = checkKeyExists_in s [Store_keyValue, Store_hash, Store_list] key"

text \<open>
  The callback of \<^verbatim>\<open>ttl\<close> (lines 337-348) is an \<^verbatim>\<open>async\<close> function that starts with
  \<^verbatim>\<open>const expiryData = await store.get(key)\<close>. \<^verbatim>\<open>store.get\<close> returns an
  \<^verbatim>\<open>IDBRequest\<close>, which has no \<^verbatim>\<open>then\<close> method: \<^verbatim>\<open>await\<close> continues with the
  request object itself, not with the record it will hold. The request is an object, so
  it is truthy, and it has no property \<^verbatim>\<open>expireAt\<close>: \<^verbatim>\<open>expiryData.expireAt\<close> is
  \<^verbatim>\<open>undefined\<close>, written \<open>None\<close>, and the arithmetic on it gives \<^verbatim>\<open>NaN\<close>, for
  which \<^verbatim>\<open>remainingTime > 0\<close> is false.
\<close>

datatype idb_request = IDBRequest "int option"

fun truthy_request :: "idb_request \<Rightarrow> bool" where
  "truthy_request (IDBRequest result) = True"

fun request_expireAt :: "idb_request \<Rightarrow> int option" where
  "request_expireAt (IDBRequest result) = None"

text \<open>\<^verbatim>\<open>Math.ceil(a / b)\<close> for integers \<open>a\<close> and \<open>b > 0\<close>.\<close>

definition ceil_div :: "int \<Rightarrow> int \<Rightarrow> int" where
  "ceil_div a b = - ((- a) div b)"

definition ttl_callback :: "dbstate \<Rightarrow> string \<Rightarrow> int \<Rightarrow> int" where
  "ttl_callback s key now =
     (let expiryData = IDBRequest (expiry_store s key)
      in if \<not> truthy_request expiryData then
           (let keyExists = checkKeyExists s key in if keyExists then - 1 else - 2)
         else
           (case request_expireAt expiryData of
              None \<Rightarrow> - 2
            | Some expireAt \<Rightarrow>
                let remainingTime = ceil_div (expireAt - now) 1000
                in if remainingTime > 0 then remainingTime else - 2))"

text \<open>
  \<^verbatim>\<open>ttl\<close> gives the \<^verbatim>\<open>async\<close> callback to \<^verbatim>\<open>_performTransaction\<close>, which
  receives the callback's promise as its \<^verbatim>\<open>request\<close>.
\<close>

definition ttl :: "dbstate \<Rightarrow> string \<Rightarrow> int \<Rightarrow> jsval" where
  "ttl s key now = performTransaction (Promise (JNum (ttl_callback s key now)))"

text \<open>
  The time to live as the specification words it, for comparison with \<open>ttl\<close>:
  \<open>-2\<close> for a key with no Expiry Record and no value in any of the three value stores,
  \<open>-1\<close> for a key with a value and no Expiry Record, and with an Expiry Record
  \<open>ceil((expireAt - now) / 1000)\<close> when that is positive and \<open>-2\<close> otherwise.
\<close>

definition ttl_spec :: "dbstate \<Rightarrow> string \<Rightarrow> int \<Rightarrow> jsval" where
  "ttl_spec s key now =
     (case expiry_store s key of
        None \<Rightarrow>
          if keyValue_store s key = None \<and> hash_store s key = None \<and> list_store s key = None
          then JNum (- 2) else JNum (- 1)
      | Some expireAt \<Rightarrow>
          if \<lceil>real_of_int (expireAt - now) / 1000\<rceil> > 0
          then JNum \<lceil>real_of_int (expireAt - now) / 1000\<rceil> else JNum (- 2))"

subsection \<open>Example databases\<close>

text \<open>\<^verbatim>\<open>rpush('k', 'x', 'y', 'z')\<close> on a new database.\<close>

definition db_xyz :: dbstate where
  "db_xyz = snd (rpush empty_db ''k'' [JStr ''x'', JStr ''y'', JStr ''z''])"

text \<open>\<^verbatim>\<open>rpush('k', 'x')\<close> on a new database.\<close>

definition db_x :: dbstate where
  "db_x = snd (rpush empty_db ''k'' [JStr ''x''])"

text \<open>\<^verbatim>\<open>set('k', 'v')\<close> on a new database.\<close>

definition db_set :: dbstate where
  "db_set = snd (set_op empty_db ''k'' (JStr ''v''))"

text \<open>
  \<^verbatim>\<open>set('k', 'v')\<close>, then \<^verbatim>\<open>expire('k', 0)\<close> at the instant 1000: the Expiry
  Record of \<^verbatim>\<open>k\<close> has \<^verbatim>\<open>expireAt = 1000\<close> and the worker's timer is pending.
\<close>

definition db_expired :: dbstate where
  "db_expired = expire db_set ''k'' 0 1000"

text \<open>\<^verbatim>\<open>set('k', 'v')\<close>, then \<^verbatim>\<open>expire('k', 60)\<close> at the instant 1000.\<close>

definition db_ttl :: dbstate where
  "db_ttl = expire db_set ''k'' 60 1000"

text \<open>\<^verbatim>\<open>hset('h', 'a', 1)\<close> on a new database.\<close>

definition db_hash :: dbstate where
  "db_hash = snd (hset empty_db ''h'' ''a'' (JNum 1))"

text \<open>\<^verbatim>\<open>hset('h', '__proto__', 1)\<close> on a new database.\<close>

definition db_proto :: dbstate where
  "db_proto = snd (hset empty_db ''h'' ''__proto__'' (JNum 1))"

section \<open>Properties\<close>

subsection \<open>Auxiliary facts\<close>

lemma take_drop_nth:
  "b \<le> length xs \<Longrightarrow> take (b - a) (drop a xs) = map ((!) xs) [a..<b]"
  by (rule nth_equalityI) auto

lemma nat_sub_nonneg: "0 \<le> (b::int) \<Longrightarrow> nat (a - b) = nat a - nat b"
  by arith

text \<open>\<open>slice\<close> returns the elements at the indices from \<open>k\<close> up to \<open>final\<close>, exclusive.\<close>

lemma slice_nth:
  "slice xs start stop =
     map ((!) xs)
       [nat (if start < 0 then max (int (length xs) + start) 0
             else min start (int (length xs))) ..<
        nat (if stop < 0 then max (int (length xs) + stop) 0
             else min stop (int (length xs)))]"
proof -
  let ?k = "if start < 0 then max (int (length xs) + start) 0 else min start (int (length xs))"
  let ?final = "if stop < 0 then max (int (length xs) + stop) 0 else min stop (int (length xs))"
  have k0: "0 \<le> ?k" by simp
  have "nat ?final \<le> length xs" by auto
  then have "take (nat ?final - nat ?k) (drop (nat ?k) xs) = map ((!) xs) [nat ?k..<nat ?final]"
    by (rule take_drop_nth)
  moreover have "nat (?final - ?k) = nat ?final - nat ?k"
    using k0 by (rule nat_sub_nonneg)
  ultimately show ?thesis
    by (simp only: slice_def Let_def)
qed

text \<open>
  For \<open>stop \<ge> - length - 1\<close>, \<open>lrange\<close> returns the elements at the indices from
  \<open>max 0 start'\<close> to \<open>min (length - 1) stop'\<close>, both included, where \<open>start'\<close> and
  \<open>stop'\<close> are \<open>start\<close> and \<open>stop\<close> with a negative index counted from the end.
\<close>

lemma lrange_indices:
  assumes "list_store s k = Some xs" and "- int (length xs) - 1 \<le> stop"
  shows "lrange s k start stop =
         map ((!) xs)
           [nat (max 0 (if start < 0 then int (length xs) + start else start)) ..<
            nat (min (int (length xs) - 1)
                   (if stop < 0 then int (length xs) + stop else stop) + 1)]"
proof (cases "int (length xs) < start")
  case True
  then have "lrange s k start stop = []"
    using assms(1) by (simp add: lrange_def slice_def Let_def)
  moreover have
    "nat (min (int (length xs) - 1) (if stop < 0 then int (length xs) + stop else stop) + 1)
       \<le> nat (max 0 (if start < 0 then int (length xs) + start else start))"
    using True by auto
  ultimately show ?thesis by simp
next
  case False
  then have lo:
    "nat (if start < 0 then max (int (length xs) + start) 0 else min start (int (length xs)))
       = nat (max 0 (if start < 0 then int (length xs) + start else start))"
    by auto
  have hi:
    "nat (if (if stop < 0 then int (length xs) + stop + 1 else stop + 1) < 0
          then max (int (length xs)
                     + (if stop < 0 then int (length xs) + stop + 1 else stop + 1)) 0
          else min (if stop < 0 then int (length xs) + stop + 1 else stop + 1)
                 (int (length xs)))
       = nat (min (int (length xs) - 1)
                (if stop < 0 then int (length xs) + stop else stop) + 1)"
    using assms(2) by auto
  have "lrange s k start stop =
        slice xs start (if stop < 0 then int (length xs) + stop + 1 else stop + 1)"
    using assms(1) by (simp add: lrange_def Let_def)
  then show ?thesis
    by (simp only: slice_nth lo hi)
qed

lemma lrange_absent: "list_store s k = None \<Longrightarrow> lrange s k start stop = []"
  by (simp add: lrange_def)

lemma lrange_negative_stop:
  assumes "list_store s k = Some xs" and "- int (length xs) \<le> stop" and "stop < 0"
  shows "lrange s k start stop = lrange s k start (int (length xs) + stop)"
  using assms by (simp add: lrange_def Let_def)

lemma lrange_whole: "list_store s k = Some xs \<Longrightarrow> lrange s k 0 (- 1) = xs"
  by (simp add: lrange_def slice_def Let_def)

lemma lrange_in_range:
  assumes "list_store s k = Some xs"
    and "0 \<le> start" and "start \<le> stop" and "stop < int (length xs)"
  shows "lrange s k start stop = map ((!) xs) [nat start ..< nat stop + 1]"
proof -
  have "- int (length xs) - 1 \<le> stop" using assms(2,3) by simp
  from lrange_indices [OF assms(1) this, of start]
  show ?thesis using assms(2,3,4) by (simp add: nat_add_distrib)
qed

lemma lrange_start_beyond:
  "list_store s k = Some xs \<Longrightarrow> int (length xs) \<le> start \<Longrightarrow> lrange s k start stop = []"
  by (simp add: lrange_def slice_def Let_def)

lemma lrange_stop_beyond:
  assumes "list_store s k = Some xs" and "int (length xs) \<le> stop"
  shows "lrange s k start stop = lrange s k start (int (length xs) - 1)"
  using assms by (simp add: lrange_def slice_def Let_def)

lemma lrange_start_before:
  assumes "list_store s k = Some xs" and "start \<le> - int (length xs)"
  shows "lrange s k start stop = lrange s k 0 stop"
proof (cases "xs = []")
  case True
  then show ?thesis using assms by (simp add: lrange_def slice_def Let_def)
next
  case False
  then have "start < 0" using assms(2) by (cases xs) auto
  then show ?thesis using assms by (simp add: lrange_def slice_def Let_def)
qed

text \<open>\<^verbatim>\<open>Math.ceil\<close> of the quotient, as \<open>ceil_div\<close> computes it.\<close>

lemma ceil_div_ceiling: "ceil_div a b = \<lceil>real_of_int a / real_of_int b\<rceil>"
proof -
  have "\<lfloor>real_of_int (- a) / real_of_int b\<rfloor> = (- a) div b"
    by (rule floor_divide_of_int_eq)
  moreover have "real_of_int (- a) / real_of_int b = - (real_of_int a / real_of_int b)"
    by simp
  ultimately show ?thesis
    by (simp add: ceil_div_def ceiling_def)
qed

text \<open>
  The promise of the callback of \<^verbatim>\<open>ttl\<close> resolves with \<open>-2\<close> whatever the stores
  hold, and \<^verbatim>\<open>ttl\<close> itself resolves with \<^verbatim>\<open>undefined\<close>.
\<close>

lemma ttl_callback_value: "ttl_callback s key now = - 2"
  by (simp add: ttl_callback_def)

lemma ttl_resolves_undefined: "ttl s key now = JUndefined"
  by (simp add: ttl_def)

lemma checkKeyExists_iff:
  "checkKeyExists s key \<longleftrightarrow>
     keyValue_store s key \<noteq> None \<or> hash_store s key \<noteq> None \<or> list_store s key \<noteq> None"
  by (auto simp: checkKeyExists_def count_key_def split: option.splits)

lemma map_of_put_own: "map_of (put_own obj key v) = (map_of obj)(key \<mapsto> v)"
  by (induction obj key v rule: put_own.induct) auto

text \<open>
  For a field that is not a property name of \<^verbatim>\<open>Object.prototype\<close>: \<^verbatim>\<open>hget\<close> gives
  \<^verbatim>\<open>null\<close> for an absent hash and for a hash without the field, and the value after
  \<^verbatim>\<open>hset\<close>.
\<close>

lemma hget_absent_hash: "hash_store s h = None \<Longrightarrow> hget s h f = Data JNull"
  by (simp add: hget_def)

lemma hget_missing_field:
  assumes "hash_store s h = Some obj" and "map_of obj f = None"
    and "f \<notin> set object_prototype_names"
  shows "hget s h f = Data JNull"
  using assms by (simp add: hget_def has_property_def)

lemma hset_then_hget:
  assumes "f \<noteq> ''__proto__''"
  shows "hget (snd (hset s h f v)) h f = Data v"
  using assms
  by (simp add: hset_def hget_def Let_def set_property_def has_property_def
      get_property_def map_of_put_own)

subsection \<open>Scalar values\<close>

text \<open>
  Claim C9. For every key \<open>k\<close> and value \<open>v\<close>, \<^verbatim>\<open>set(k, v)\<close> followed by
  \<^verbatim>\<open>get(k)\<close> returns \<open>v\<close>, and \<^verbatim>\<open>set\<close> touches the scalar store only: the hash
  store, the list store, the expiry store and the worker's timers are unchanged, and the
  one write request it makes is a put on \<^verbatim>\<open>keyValue\<close>.
\<close>

theorem set_then_get:
  "get (snd (set_op s k v)) k = v
   \<and> hash_store (snd (set_op s k v)) = hash_store s
   \<and> list_store (snd (set_op s k v)) = list_store s
   \<and> expiry_store (snd (set_op s k v)) = expiry_store s
   \<and> timers (snd (set_op s k v)) = timers s
   \<and> writes (snd (set_op s k v)) = writes s @ [Put Store_keyValue k]"
  by (simp add: set_op_def get_def)

subsection \<open>Hashes\<close>

text \<open>
  Claim C8, at the inputs where the code departs from it. The hash \<^verbatim>\<open>h\<close> holds the
  one field \<^verbatim>\<open>a\<close>; \<^verbatim>\<open>hget('h', 'b')\<close> is \<^verbatim>\<open>null\<close>, but
  \<^verbatim>\<open>hget('h', 'constructor')\<close> and \<^verbatim>\<open>hget('h', 'toString')\<close> resolve with the
  members inherited from \<^verbatim>\<open>Object.prototype\<close>, because \<^verbatim>\<open>key in hashObj\<close> follows
  the prototype chain. After \<^verbatim>\<open>hset('h', '__proto__', 1)\<close> the stored hash has no field
  and \<^verbatim>\<open>hget('h', '__proto__')\<close> resolves with the prototype, not with \<open>1\<close>.
\<close>

theorem hget_inherited_member:
  "hash_store db_hash ''h'' = Some [(''a'', JNum 1)]
   \<and> hget db_hash ''h'' ''a'' = Data (JNum 1)
   \<and> hget db_hash ''h'' ''b'' = Data JNull
   \<and> hget db_hash ''h'' ''constructor'' = ObjectPrototype ''constructor''
   \<and> hget db_hash ''h'' ''toString'' = ObjectPrototype ''toString''
   \<and> hash_store db_proto ''h'' = Some []
   \<and> hget db_proto ''h'' ''__proto__'' = ObjectPrototype ''__proto__''"
  by (simp add: db_hash_def db_proto_def hset_def hget_def empty_db_def Let_def
      set_property_def has_property_def get_property_def object_prototype_names_def)

subsection \<open>Lists\<close>

text \<open>
  Claim C6. \<^verbatim>\<open>lpush(k, values...)\<close> puts the values in front of the prior contents
  of the list as a block, in the order given, so that \<^verbatim>\<open>lrange(k, 0, -1)\<close> is then the
  values followed by the prior contents (for \<^verbatim>\<open>lpush(k, a, b, c)\<close>:
  \<open>[a, b, c]\<close> followed by the prior contents, with \<open>a\<close> at index 0);
  \<^verbatim>\<open>rpush(k, values...)\<close> puts them behind the prior contents, so that on an absent
  key \<^verbatim>\<open>rpush(k, a, b, c)\<close> makes \<^verbatim>\<open>lrange(k, 0, -1)\<close> equal \<open>[a, b, c]\<close>; both
  return the new length of the list.
\<close>

theorem push_keeps_block_order:
  "lrange (snd (lpush s k vs)) k 0 (- 1)
     = vs @ (case list_store s k of None \<Rightarrow> [] | Some xs \<Rightarrow> xs)
   \<and> fst (lpush s k vs) = length (lrange (snd (lpush s k vs)) k 0 (- 1))
   \<and> lrange (snd (lpush s k [a, b, c])) k 0 (- 1)
     = [a, b, c] @ (case list_store s k of None \<Rightarrow> [] | Some xs \<Rightarrow> xs)
   \<and> lrange (snd (lpush s k [a, b, c])) k 0 (- 1) ! 0 = a
   \<and> lrange (snd (rpush s k vs)) k 0 (- 1)
     = (case list_store s k of None \<Rightarrow> [] | Some xs \<Rightarrow> xs) @ vs
   \<and> fst (rpush s k vs) = length (lrange (snd (rpush s k vs)) k 0 (- 1))
   \<and> (list_store s k = None \<longrightarrow>
        lrange (snd (rpush s k [a, b, c])) k 0 (- 1) = [a, b, c]
        \<and> fst (rpush s k [a, b, c]) = 3)"
  by (simp add: lpush_def rpush_def lrange_def slice_def Let_def)

theorem push_keeps_block_order_witness:
  "list_store db_x ''k'' = Some [JStr ''x'']
   \<and> lrange (snd (lpush db_x ''k'' [JStr ''a'', JStr ''b'', JStr ''c''])) ''k'' 0 (- 1)
     = [JStr ''a'', JStr ''b'', JStr ''c'', JStr ''x'']
   \<and> fst (lpush db_x ''k'' [JStr ''a'', JStr ''b'', JStr ''c'']) = 4
   \<and> list_store empty_db ''k'' = None
   \<and> lrange (snd (rpush empty_db ''k'' [JStr ''a'', JStr ''b'', JStr ''c''])) ''k'' 0 (- 1)
     = [JStr ''a'', JStr ''b'', JStr ''c'']
   \<and> fst (rpush empty_db ''k'' [JStr ''a'', JStr ''b'', JStr ''c'']) = 3"
proof -
  have x: "list_store db_x ''k'' = Some [JStr ''x'']"
    by (simp add: db_x_def rpush_def empty_db_def Let_def)
  have e: "list_store empty_db ''k'' = None"
    by (simp add: empty_db_def)
  show ?thesis
    using x e
      push_keeps_block_order [of db_x "''k''" "[JStr ''a'', JStr ''b'', JStr ''c'']"]
      push_keeps_block_order [of empty_db "''k''" "[]" "JStr ''a''" "JStr ''b''" "JStr ''c''"]
    by simp
qed

text \<open>
  Claim C7. On an absent or empty list \<^verbatim>\<open>lpop(k)\<close> and \<^verbatim>\<open>rpop(k)\<close> return
  \<^verbatim>\<open>null\<close> and leave the database as it was, the log of write requests included. On
  a list of \<open>n > 0\<close> elements \<^verbatim>\<open>lpop\<close> returns the first and \<^verbatim>\<open>rpop\<close> the last
  element, and each makes one put on the list store, of the list without that element,
  which has \<open>n - 1\<close> elements.
\<close>

theorem pop_null_or_one_element:
  "(list_store s k = None \<or> list_store s k = Some [] \<longrightarrow>
      lpop s k = (JNull, s) \<and> rpop s k = (JNull, s))
   \<and> (list_store s k = Some xs \<and> xs \<noteq> [] \<longrightarrow>
        fst (lpop s k) = hd xs
        \<and> list_store (snd (lpop s k)) k = Some (tl xs)
        \<and> length (tl xs) = length xs - 1
        \<and> writes (snd (lpop s k)) = writes s @ [Put Store_list k]
        \<and> fst (rpop s k) = last xs
        \<and> list_store (snd (rpop s k)) k = Some (butlast xs)
        \<and> length (butlast xs) = length xs - 1
        \<and> writes (snd (rpop s k)) = writes s @ [Put Store_list k])"
proof (intro conjI impI)
  assume "list_store s k = None \<or> list_store s k = Some []"
  then show "lpop s k = (JNull, s)" and "rpop s k = (JNull, s)"
    by (auto simp: lpop_def rpop_def)
next
  assume "list_store s k = Some xs \<and> xs \<noteq> []"
  then obtain x rest where xs: "list_store s k = Some xs" "xs = x # rest"
    by (cases xs) auto
  show "fst (lpop s k) = hd xs" "list_store (snd (lpop s k)) k = Some (tl xs)"
    "writes (snd (lpop s k)) = writes s @ [Put Store_list k]"
    using xs by (simp_all add: lpop_def)
  show "fst (rpop s k) = last xs" "list_store (snd (rpop s k)) k = Some (butlast xs)"
    "writes (snd (rpop s k)) = writes s @ [Put Store_list k]"
    using xs by (simp_all add: rpop_def)
  show "length (tl xs) = length xs - 1" "length (butlast xs) = length xs - 1"
    by simp_all
qed

theorem pop_null_or_one_element_witness:
  "list_store empty_db ''k'' = None
   \<and> lpop empty_db ''k'' = (JNull, empty_db)
   \<and> rpop empty_db ''k'' = (JNull, empty_db)
   \<and> list_store db_xyz ''k'' = Some [JStr ''x'', JStr ''y'', JStr ''z'']
   \<and> fst (lpop db_xyz ''k'') = JStr ''x''
   \<and> list_store (snd (lpop db_xyz ''k'')) ''k'' = Some [JStr ''y'', JStr ''z'']
   \<and> fst (rpop db_xyz ''k'') = JStr ''z''
   \<and> list_store (snd (rpop db_xyz ''k'')) ''k'' = Some [JStr ''x'', JStr ''y'']"
proof -
  have e: "list_store empty_db ''k'' = None"
    by (simp add: empty_db_def)
  have x: "list_store db_xyz ''k'' = Some [JStr ''x'', JStr ''y'', JStr ''z'']"
    by (simp add: db_xyz_def rpush_def empty_db_def Let_def)
  show ?thesis
    using e x
      pop_null_or_one_element [of empty_db "''k''" "[]"]
      pop_null_or_one_element [of db_xyz "''k''" "[JStr ''x'', JStr ''y'', JStr ''z'']"]
    by simp
qed

text \<open>
  Claim C5, as stated, fails on the list \<open>[x, y, z]\<close>: \<^verbatim>\<open>lrange(k, 0, -4)\<close> is empty
  while \<^verbatim>\<open>lrange(k, 0, 3 + (-4))\<close>, that is \<^verbatim>\<open>lrange(k, 0, -1)\<close>, is the whole
  list; and \<^verbatim>\<open>lrange(k, 0, -5)\<close> is \<open>[x, y]\<close>, the same as \<^verbatim>\<open>lrange(k, 0, 1)\<close>:
  a stop below \<open>- 3 - 1\<close> is not clamped to the bounds of the list.
\<close>

theorem lrange_far_negative_stop_counterexample:
  "list_store db_xyz ''k'' = Some [JStr ''x'', JStr ''y'', JStr ''z'']
   \<and> lrange db_xyz ''k'' 0 (- 4) = []
   \<and> lrange db_xyz ''k'' 0 (3 + (- 4)) = [JStr ''x'', JStr ''y'', JStr ''z'']
   \<and> lrange db_xyz ''k'' 0 (- 4) \<noteq> lrange db_xyz ''k'' 0 (3 + (- 4))
   \<and> lrange db_xyz ''k'' 0 (- 5) = [JStr ''x'', JStr ''y'']"
  by (simp add: db_xyz_def rpush_def empty_db_def lrange_def slice_def Let_def)

text \<open>
  Claim C5, amended. \<^verbatim>\<open>lrange\<close> on an absent list is empty. For a stored list
  \<open>xs\<close> of length \<open>L\<close>:
  \<^item> for \<open>- L \<le> stop < 0\<close>, \<^verbatim>\<open>lrange(k, start, stop)\<close> equals
    \<^verbatim>\<open>lrange(k, start, L + stop)\<close>, and \<^verbatim>\<open>lrange(k, 0, -1)\<close> is the whole list;
  \<^item> for every \<open>start\<close> and every \<open>stop \<ge> - L - 1\<close> the result is the elements at the
    indices from \<open>max 0 start'\<close> to \<open>min (L - 1) stop'\<close>, both included, where a
    negative \<open>start\<close> or \<open>stop\<close> counts from the end (\<open>start' = L + start\<close>,
    \<open>stop' = L + stop\<close>): the slice includes \<open>stop\<close> and bounds outside the list are
    clamped;
  \<^item> for \<open>0 \<le> start \<le> stop < L\<close> these are the \<open>stop - start + 1\<close> elements
    \<open>xs ! start, \<dots>, xs ! stop\<close>;
  \<^item> \<open>stop \<ge> L\<close> gives what \<open>stop = L - 1\<close> gives, \<open>start \<le> - L\<close> what \<open>start = 0\<close>
    gives, and \<open>start \<ge> L\<close> the empty list, for every \<open>stop\<close>.
\<close>

theorem lrange_inclusive_clamped:
  "(list_store s k = None \<longrightarrow> lrange s k start stop = [])
   \<and> (list_store s k = Some xs \<longrightarrow>
        (- int (length xs) \<le> stop \<and> stop < 0 \<longrightarrow>
           lrange s k start stop = lrange s k start (int (length xs) + stop))
        \<and> lrange s k 0 (- 1) = xs
        \<and> (- int (length xs) - 1 \<le> stop \<longrightarrow>
             lrange s k start stop =
               map ((!) xs)
                 [nat (max 0 (if start < 0 then int (length xs) + start else start)) ..<
                  nat (min (int (length xs) - 1)
                         (if stop < 0 then int (length xs) + stop else stop) + 1)])
        \<and> (0 \<le> start \<and> start \<le> stop \<and> stop < int (length xs) \<longrightarrow>
             lrange s k start stop = map ((!) xs) [nat start ..< nat stop + 1]
             \<and> length (lrange s k start stop) = nat (stop - start + 1))
        \<and> (int (length xs) \<le> stop \<longrightarrow>
             lrange s k start stop = lrange s k start (int (length xs) - 1))
        \<and> (start \<le> - int (length xs) \<longrightarrow> lrange s k start stop = lrange s k 0 stop)
        \<and> (int (length xs) \<le> start \<longrightarrow> lrange s k start stop = []))"
proof (intro conjI impI)
  assume "list_store s k = None"
  then show "lrange s k start stop = []" by (rule lrange_absent)
next
  assume xs: "list_store s k = Some xs"
  show "lrange s k 0 (- 1) = xs" using xs by (rule lrange_whole)
  {
    assume "- int (length xs) \<le> stop \<and> stop < 0"
    then show "lrange s k start stop = lrange s k start (int (length xs) + stop)"
      using xs by (simp add: lrange_negative_stop)
  }
  {
    assume "- int (length xs) - 1 \<le> stop"
    with xs show "lrange s k start stop =
       map ((!) xs)
         [nat (max 0 (if start < 0 then int (length xs) + start else start)) ..<
          nat (min (int (length xs) - 1)
                 (if stop < 0 then int (length xs) + stop else stop) + 1)]"
      by (rule lrange_indices)
  }
  {
    assume r: "0 \<le> start \<and> start \<le> stop \<and> stop < int (length xs)"
    then show eq: "lrange s k start stop = map ((!) xs) [nat start ..< nat stop + 1]"
      using xs by (simp add: lrange_in_range)
    show "length (lrange s k start stop) = nat (stop - start + 1)"
      using r by (simp add: eq) arith
  }
  {
    assume "int (length xs) \<le> stop"
    with xs show "lrange s k start stop = lrange s k start (int (length xs) - 1)"
      by (rule lrange_stop_beyond)
  }
  {
    assume "start \<le> - int (length xs)"
    with xs show "lrange s k start stop = lrange s k 0 stop"
      by (rule lrange_start_before)
  }
  {
    assume "int (length xs) \<le> start"
    with xs show "lrange s k start stop = []"
      by (rule lrange_start_beyond)
  }
qed

theorem lrange_inclusive_clamped_witness:
  "list_store db_xyz ''k'' = Some [JStr ''x'', JStr ''y'', JStr ''z'']
   \<and> lrange db_xyz ''k'' 0 (- 1) = [JStr ''x'', JStr ''y'', JStr ''z'']
   \<and> lrange db_xyz ''k'' 1 (- 2) = lrange db_xyz ''k'' 1 1
   \<and> lrange db_xyz ''k'' 1 1 = [JStr ''y'']
   \<and> lrange db_xyz ''k'' 5 10 = []
   \<and> lrange db_xyz ''k'' 1 10 = lrange db_xyz ''k'' 1 2
   \<and> lrange db_xyz ''k'' (- 7) 1 = lrange db_xyz ''k'' 0 1
   \<and> list_store empty_db ''k'' = None
   \<and> lrange empty_db ''k'' 0 (- 1) = []"
proof -
  have x: "list_store db_xyz ''k'' = Some [JStr ''x'', JStr ''y'', JStr ''z'']"
    by (simp add: db_xyz_def rpush_def empty_db_def Let_def)
  have e: "list_store empty_db ''k'' = None"
    by (simp add: empty_db_def)
  show ?thesis
    using x e
      lrange_inclusive_clamped
        [of db_xyz "''k''" 1 "- 2" "[JStr ''x'', JStr ''y'', JStr ''z'']"]
      lrange_inclusive_clamped
        [of db_xyz "''k''" 1 1 "[JStr ''x'', JStr ''y'', JStr ''z'']"]
      lrange_inclusive_clamped
        [of db_xyz "''k''" 5 10 "[JStr ''x'', JStr ''y'', JStr ''z'']"]
      lrange_inclusive_clamped
        [of db_xyz "''k''" 1 10 "[JStr ''x'', JStr ''y'', JStr ''z'']"]
      lrange_inclusive_clamped
        [of db_xyz "''k''" "- 7" 1 "[JStr ''x'', JStr ''y'', JStr ''z'']"]
      lrange_inclusive_clamped [of empty_db "''k''" 0 "- 1" "[]"]
    by (simp add: upt_rec lrange_def slice_def)
qed

text \<open>
  Claim C10, as far as the code goes. Popping the one element of a list puts the empty
  array back and does not delete the record: the key is still counted by
  \<^verbatim>\<open>_checkKeyExists\<close> and \<^verbatim>\<open>lrange(k, 0, -1)\<close> is empty. With no Expiry Record the
  time to live the specification describes is then \<open>-1\<close>, but \<^verbatim>\<open>ttl(k)\<close> resolves
  with \<^verbatim>\<open>undefined\<close>.
\<close>

theorem pop_last_element_keeps_record:
  "list_store s k = Some [x] \<and> expiry_store s k = None \<longrightarrow>
     fst (lpop s k) = x
     \<and> list_store (snd (lpop s k)) k = Some []
     \<and> writes (snd (lpop s k)) = writes s @ [Put Store_list k]
     \<and> checkKeyExists (snd (lpop s k)) k
     \<and> lrange (snd (lpop s k)) k 0 (- 1) = []
     \<and> ttl_spec (snd (lpop s k)) k now = JNum (- 1)
     \<and> ttl (snd (lpop s k)) k now = JUndefined
     \<and> fst (rpop s k) = x
     \<and> list_store (snd (rpop s k)) k = Some []
     \<and> writes (snd (rpop s k)) = writes s @ [Put Store_list k]
     \<and> checkKeyExists (snd (rpop s k)) k
     \<and> lrange (snd (rpop s k)) k 0 (- 1) = []
     \<and> ttl_spec (snd (rpop s k)) k now = JNum (- 1)
     \<and> ttl (snd (rpop s k)) k now = JUndefined"
proof (intro impI)
  assume a: "list_store s k = Some [x] \<and> expiry_store s k = None"
  have l: "lpop s k =
      (x, s\<lparr>list_store := (list_store s)(k \<mapsto> []), writes := writes s @ [Put Store_list k]\<rparr>)"
    using a by (simp add: lpop_def)
  have r: "rpop s k =
      (x, s\<lparr>list_store := (list_store s)(k \<mapsto> []), writes := writes s @ [Put Store_list k]\<rparr>)"
    using a by (simp add: rpop_def)
  have "checkKeyExists
      (s\<lparr>list_store := (list_store s)(k \<mapsto> []), writes := writes s @ [Put Store_list k]\<rparr>) k"
    by (simp add: checkKeyExists_iff)
  moreover have "lrange
      (s\<lparr>list_store := (list_store s)(k \<mapsto> []), writes := writes s @ [Put Store_list k]\<rparr>)
      k 0 (- 1) = []"
    by (simp add: lrange_whole)
  moreover have "ttl_spec
      (s\<lparr>list_store := (list_store s)(k \<mapsto> []), writes := writes s @ [Put Store_list k]\<rparr>)
      k now = JNum (- 1)"
    using a by (simp add: ttl_spec_def)
  ultimately show "fst (lpop s k) = x
     \<and> list_store (snd (lpop s k)) k = Some []
     \<and> writes (snd (lpop s k)) = writes s @ [Put Store_list k]
     \<and> checkKeyExists (snd (lpop s k)) k
     \<and> lrange (snd (lpop s k)) k 0 (- 1) = []
     \<and> ttl_spec (snd (lpop s k)) k now = JNum (- 1)
     \<and> ttl (snd (lpop s k)) k now = JUndefined
     \<and> fst (rpop s k) = x
     \<and> list_store (snd (rpop s k)) k = Some []
     \<and> writes (snd (rpop s k)) = writes s @ [Put Store_list k]
     \<and> checkKeyExists (snd (rpop s k)) k
     \<and> lrange (snd (rpop s k)) k 0 (- 1) = []
     \<and> ttl_spec (snd (rpop s k)) k now = JNum (- 1)
     \<and> ttl (snd (rpop s k)) k now = JUndefined"
    by (simp add: l r ttl_resolves_undefined)
qed

theorem pop_last_element_keeps_record_witness:
  "list_store db_x ''k'' = Some [JStr ''x'']
   \<and> expiry_store db_x ''k'' = None
   \<and> fst (lpop db_x ''k'') = JStr ''x''
   \<and> list_store (snd (lpop db_x ''k'')) ''k'' = Some []
   \<and> checkKeyExists (snd (lpop db_x ''k'')) ''k''
   \<and> lrange (snd (lpop db_x ''k'')) ''k'' 0 (- 1) = []
   \<and> ttl_spec (snd (lpop db_x ''k'')) ''k'' 0 = JNum (- 1)
   \<and> ttl (snd (lpop db_x ''k'')) ''k'' 0 = JUndefined"
proof -
  have x: "list_store db_x ''k'' = Some [JStr ''x''] \<and> expiry_store db_x ''k'' = None"
    by (simp add: db_x_def rpush_def empty_db_def Let_def)
  show ?thesis
    using x pop_last_element_keeps_record [of db_x "''k''" "JStr ''x''" 0]
    by simp
qed

subsection \<open>Deletion\<close>

text \<open>
  Claim C3. For every key \<open>k\<close>, \<^verbatim>\<open>del(k)\<close> removes the record of \<open>k\<close> from the
  scalar, hash and list stores, so that afterwards \<^verbatim>\<open>get(k)\<close> is absent
  (\<^verbatim>\<open>undefined\<close>), \<^verbatim>\<open>hget(k, f)\<close> is \<^verbatim>\<open>null\<close> for every field \<open>f\<close> and
  \<^verbatim>\<open>lrange(k, start, stop)\<close> is empty for all bounds, \<^verbatim>\<open>lrange(k, 0, -1)\<close> among
  them; the expiry store is left as it was, and no write request of \<^verbatim>\<open>del\<close> is on it.
\<close>

theorem del_clears_values_keeps_expiry:
  "keyValue_store (del s k) k = None
   \<and> hash_store (del s k) k = None
   \<and> list_store (del s k) k = None
   \<and> get (del s k) k = JUndefined
   \<and> (\<forall>f. hget (del s k) k f = Data JNull)
   \<and> (\<forall>start stop. lrange (del s k) k start stop = [])
   \<and> lrange (del s k) k 0 (- 1) = []
   \<and> expiry_store (del s k) = expiry_store s
   \<and> writes (del s k) =
       writes s @ [Delete Store_keyValue k, Delete Store_hash k, Delete Store_list k]"
  by (simp add: del_def get_def hget_def lrange_def Let_def)

subsection \<open>Expiry\<close>

text \<open>
  Claim C4. The engine's handler of the worker's message \<^verbatim>\<open>{key: k, action: 'delete'}\<close>
  runs \<^verbatim>\<open>del(k)\<close> and then \<^verbatim>\<open>_removeExpiry(k)\<close>: its four write requests are the
  deletes on \<^verbatim>\<open>keyValue\<close>, \<^verbatim>\<open>hash\<close>, \<^verbatim>\<open>list\<close> and \<^verbatim>\<open>expiry\<close>, in this order, and
  afterwards \<open>k\<close> is absent from the three value stores and from the expiry store. When a
  pending timer of the worker, set for the key \<open>k\<close> and an instant that has been
  reached, fires, this is what happens to the database, and the timer is no longer
  pending.
\<close>

theorem delete_event_removes_value_and_expiry:
  "worker_onmessage s k ''delete'' = removeExpiry (del s k) k
   \<and> keyValue_store (worker_onmessage s k ''delete'') k = None
   \<and> hash_store (worker_onmessage s k ''delete'') k = None
   \<and> list_store (worker_onmessage s k ''delete'') k = None
   \<and> expiry_store (worker_onmessage s k ''delete'') k = None
   \<and> writes (worker_onmessage s k ''delete'') =
       writes s @ [Delete Store_keyValue k, Delete Store_hash k, Delete Store_list k,
                   Delete Store_expiry k]
   \<and> (i < length (timers s) \<and> timers s ! i = (k, due) \<and> due \<le> now \<longrightarrow>
        timer_fires s i now =
          removeExpiry (del (s\<lparr>timers := take i (timers s) @ drop (Suc i) (timers s)\<rparr>) k) k
        \<and> keyValue_store (timer_fires s i now) k = None
        \<and> hash_store (timer_fires s i now) k = None
        \<and> list_store (timer_fires s i now) k = None
        \<and> expiry_store (timer_fires s i now) k = None
        \<and> timers (timer_fires s i now) = take i (timers s) @ drop (Suc i) (timers s))"
  by (simp add: timer_fires_def worker_onmessage_def removeExpiry_def del_def Let_def)

theorem delete_event_removes_value_and_expiry_witness:
  "timers db_expired = [(''k'', 1000)]
   \<and> keyValue_store db_expired ''k'' = Some (JStr ''v'')
   \<and> expiry_store db_expired ''k'' = Some 1000
   \<and> keyValue_store (timer_fires db_expired 0 1000) ''k'' = None
   \<and> hash_store (timer_fires db_expired 0 1000) ''k'' = None
   \<and> list_store (timer_fires db_expired 0 1000) ''k'' = None
   \<and> expiry_store (timer_fires db_expired 0 1000) ''k'' = None
   \<and> timers (timer_fires db_expired 0 1000) = []"
proof -
  have t: "timers db_expired = [(''k'', 1000)]"
    and v: "keyValue_store db_expired ''k'' = Some (JStr ''v'')"
    and e: "expiry_store db_expired ''k'' = Some 1000"
    by (simp_all add: db_expired_def db_set_def expire_def setExpiry_def
        worker_postMessage_def set_op_def empty_db_def Let_def)
  show ?thesis
    using t v e
      delete_event_removes_value_and_expiry [of db_expired "''k''" 0 1000 1000]
    by (simp add: removeExpiry_def del_def Let_def)
qed

text \<open>
  Claim C1, as stated, fails. After \<^verbatim>\<open>set('k', 'v')\<close> and \<^verbatim>\<open>expire('k', 0)\<close> at the
  instant 1000 the Expiry Record of \<^verbatim>\<open>k\<close> has \<^verbatim>\<open>expireAt = 1000\<close>. Until the
  worker's message has been handled, at the instant 2000 say, \<^verbatim>\<open>get('k')\<close> returns
  \<open>v\<close>, and both the value and the Expiry Record are still stored.
\<close>

theorem get_returns_expired_value_counterexample:
  "expiry_store db_expired ''k'' = Some 1000
   \<and> (1000 :: int) \<le> 2000
   \<and> get db_expired ''k'' = JStr ''v''
   \<and> keyValue_store db_expired ''k'' = Some (JStr ''v'')"
  by (simp add: db_expired_def db_set_def expire_def setExpiry_def worker_postMessage_def
      set_op_def get_def empty_db_def Let_def)

text \<open>
  Claim C1, amended. The read-path operations \<^verbatim>\<open>get\<close>, \<^verbatim>\<open>hget\<close>, \<^verbatim>\<open>lrange\<close>,
  \<^verbatim>\<open>lpop\<close> and \<^verbatim>\<open>rpop\<close> do not consult the expiry store: each returns what it
  returns with any other expiry store \<open>e\<close> in its place, and none of them
  changes the expiry store. A key's value and its Expiry Record are removed when the
  worker's delete event for the key has been handled: from then on \<^verbatim>\<open>get\<close> is absent,
  \<^verbatim>\<open>hget\<close> is \<^verbatim>\<open>null\<close>, \<^verbatim>\<open>lrange\<close> is empty, \<^verbatim>\<open>lpop\<close> and \<^verbatim>\<open>rpop\<close> return
  \<^verbatim>\<open>null\<close>, and the key has no Expiry Record.
\<close>

theorem reads_ignore_expiry_store:
  "get (s\<lparr>expiry_store := e\<rparr>) k = get s k
   \<and> hget (s\<lparr>expiry_store := e\<rparr>) k f = hget s k f
   \<and> lrange (s\<lparr>expiry_store := e\<rparr>) k start stop = lrange s k start stop
   \<and> fst (lpop (s\<lparr>expiry_store := e\<rparr>) k) = fst (lpop s k)
   \<and> fst (rpop (s\<lparr>expiry_store := e\<rparr>) k) = fst (rpop s k)
   \<and> expiry_store (snd (lpop s k)) = expiry_store s
   \<and> expiry_store (snd (rpop s k)) = expiry_store s
   \<and> get (worker_onmessage s k ''delete'') k = JUndefined
   \<and> hget (worker_onmessage s k ''delete'') k f = Data JNull
   \<and> lrange (worker_onmessage s k ''delete'') k start stop = []
   \<and> fst (lpop (worker_onmessage s k ''delete'') k) = JNull
   \<and> fst (rpop (worker_onmessage s k ''delete'') k) = JNull
   \<and> expiry_store (worker_onmessage s k ''delete'') k = None"
proof -
  have reads:
    "get (s\<lparr>expiry_store := e\<rparr>) k = get s k"
    "hget (s\<lparr>expiry_store := e\<rparr>) k f = hget s k f"
    "lrange (s\<lparr>expiry_store := e\<rparr>) k start stop = lrange s k start stop"
    by (simp_all add: get_def hget_def lrange_def)
  have pops:
    "fst (lpop (s\<lparr>expiry_store := e\<rparr>) k) = fst (lpop s k)"
    "fst (rpop (s\<lparr>expiry_store := e\<rparr>) k) = fst (rpop s k)"
    "expiry_store (snd (lpop s k)) = expiry_store s"
    "expiry_store (snd (rpop s k)) = expiry_store s"
    by (simp_all add: lpop_def rpop_def split: option.splits list.splits)
  have after:
    "get (worker_onmessage s k ''delete'') k = JUndefined"
    "hget (worker_onmessage s k ''delete'') k f = Data JNull"
    "lrange (worker_onmessage s k ''delete'') k start stop = []"
    "fst (lpop (worker_onmessage s k ''delete'') k) = JNull"
    "fst (rpop (worker_onmessage s k ''delete'') k) = JNull"
    "expiry_store (worker_onmessage s k ''delete'') k = None"
    by (simp_all add: worker_onmessage_def removeExpiry_def del_def Let_def
        get_def hget_def lrange_def lpop_def rpop_def)
  from reads pops after show ?thesis by simp
qed

subsection \<open>Time to live\<close>

text \<open>
  Claim C2, at inputs where the code departs from it. For a key that was never set the
  specification's time to live is \<open>-2\<close>, for a key set with no Expiry Record \<open>-1\<close>, and
  for a key set to expire 60 seconds after the instant 1000 it is \<open>60\<close> at the instant
  1500; \<^verbatim>\<open>ttl\<close> resolves with \<^verbatim>\<open>undefined\<close> in the three cases.
\<close>

theorem ttl_undefined_where_spec_has_number:
  "ttl_spec empty_db ''k'' 0 = JNum (- 2)
   \<and> ttl empty_db ''k'' 0 = JUndefined
   \<and> ttl_spec db_set ''k'' 0 = JNum (- 1)
   \<and> ttl db_set ''k'' 0 = JUndefined
   \<and> expiry_store db_ttl ''k'' = Some 61000
   \<and> ttl_spec db_ttl ''k'' 1500 = JNum 60
   \<and> ttl db_ttl ''k'' 1500 = JUndefined"
  by (simp add: ttl_def ttl_spec_def db_ttl_def db_set_def expire_def setExpiry_def
      worker_postMessage_def set_op_def empty_db_def Let_def)

end
